theory Spec2Isabelle
  imports Main "HOL-Library.Word"
begin

section \<open>The wire error taxonomy (wire/error.go)\<close>

subsection \<open>ErrorCode\<close>

text \<open>
  \<^verbatim>\<open>type ErrorCode int\<close>. Go's \<^verbatim>\<open>int\<close> is modelled at its 64-bit width; the file
  performs no arithmetic on codes, only equality tests and the conversion \<^verbatim>\<open>int(e)\<close>
  for printing, which is the signed reading \<open>sint\<close>.
\<close>

type_synonym ErrorCode = "64 word"

text \<open>The constant block: \<^verbatim>\<open>iota\<close> numbers the eight categories from 0.\<close>

definition ErrVarBytesTooLong :: ErrorCode where
  "ErrVarBytesTooLong = 0"

definition ErrMsgInvalidForPVer :: ErrorCode where
  "ErrMsgInvalidForPVer = 1"

definition ErrInvalidMsg :: ErrorCode where
  "ErrInvalidMsg = 2"

definition ErrMalformedStrictString :: ErrorCode where
  "ErrMalformedStrictString = 3"

definition ErrTooManyManyMixPairReqs :: ErrorCode where
  "ErrTooManyManyMixPairReqs = 4"

definition ErrMixPairReqScriptClassTooLong :: ErrorCode where
  "ErrMixPairReqScriptClassTooLong = 5"

definition ErrTooManyMixPairReqUTXOs :: ErrorCode where
  "ErrTooManyMixPairReqUTXOs = 6"

definition ErrTooManyPrevMixMsgs :: ErrorCode where
  "ErrTooManyPrevMixMsgs = 7"

text \<open>
  \<^verbatim>\<open>var errorCodeStrings = map[ErrorCode]string{...}\<close>: four entries. Nothing in the
  file writes to the table, so it is a constant map.
\<close>

definition errorCodeStrings :: "ErrorCode \<rightharpoonup> string" where
  "errorCodeStrings =
     [ErrTooManyManyMixPairReqs \<mapsto> ''ErrTooManyManyMixPairReqs'',
      ErrMixPairReqScriptClassTooLong \<mapsto> ''ErrMixPairReqScriptClassTooLong'',
      ErrTooManyMixPairReqUTXOs \<mapsto> ''ErrTooManyMixPairReqUTXOs'',
      ErrTooManyPrevMixMsgs \<mapsto> ''ErrTooManyPrevMixMsgs'']"

text \<open>Go's map index expression \<^verbatim>\<open>m[k]\<close>: the zero value \<^verbatim>\<open>""\<close> for an absent key.\<close>

definition map_index :: "('k \<rightharpoonup> string) \<Rightarrow> 'k \<Rightarrow> string" where
  "map_index m k = (case m k of None \<Rightarrow> [] | Some s \<Rightarrow> s)"

subsection \<open>The two uses of fmt.Sprintf\<close>

text \<open>
  The verb \<^verbatim>\<open>%d\<close> prints a signed integer in base 10: a minus sign for a negative
  number, then the digits of the magnitude, most significant first, with no leading zero.
\<close>

definition digit_char :: "nat \<Rightarrow> char" where
  "digit_char n = ''0123456789'' ! n"

function string_of_nat :: "nat \<Rightarrow> string" where
  "string_of_nat n =
     (if n < 10 then [digit_char n]
      else string_of_nat (n div 10) @ [digit_char (n mod 10)])"
  by pat_completeness auto
termination
  by (relation "measure (\<lambda>n. n)") auto

definition FormatInt :: "int \<Rightarrow> string" where
  "FormatInt i = (if i < 0 then CHR ''-'' # string_of_nat (nat (- i)) else string_of_nat (nat i))"

text \<open>
  A reader of unsigned decimal numerals, against which the printer is checked below.
\<close>

definition digit_val :: "char \<Rightarrow> nat" where
  "digit_val c = of_char c - 48"

definition nat_of_digits :: "string \<Rightarrow> nat" where
  "nat_of_digits s = foldl (\<lambda>a c. 10 * a + digit_val c) 0 s"

text \<open>\<^verbatim>\<open>fmt.Sprintf("Unknown ErrorCode (%d)", i)\<close>\<close>

definition Sprintf_Unknown_ErrorCode :: "int \<Rightarrow> string" where
  "Sprintf_Unknown_ErrorCode i = ''Unknown ErrorCode ('' @ FormatInt i @ '')''"

text \<open>\<^verbatim>\<open>fmt.Sprintf("%v: %v", a, b)\<close> on two strings: \<^verbatim>\<open>%v\<close> prints a string as it is.\<close>

definition Sprintf_v_colon_v :: "string \<Rightarrow> string \<Rightarrow> string" where
  "Sprintf_v_colon_v a b = a @ '': '' @ b"

subsection \<open>ErrorCode.String and ErrorCode.Error\<close>

definition ErrorCode_String :: "ErrorCode \<Rightarrow> string" where
  "ErrorCode_String e =
     (let s = map_index errorCodeStrings e
      in if s \<noteq> [] then s else Sprintf_Unknown_ErrorCode (sint e))"

definition ErrorCode_Error :: "ErrorCode \<Rightarrow> string" where
  "ErrorCode_Error e = ErrorCode_String e"

subsection \<open>MessageError and the error interface\<close>

record MessageError =
  Func :: string
  ErrorCode :: ErrorCode
  Description :: string

text \<open>
  A value of Go's interface type \<^verbatim>\<open>error\<close>, by its dynamic type: the nil interface, a
  \<^verbatim>\<open>*MessageError\<close> (a pointer, \<open>None\<close> when it is nil), an \<^verbatim>\<open>ErrorCode\<close>, or a
  value of any other type, which is kept by the text its \<^verbatim>\<open>Error()\<close> gives. No function
  of the file writes through a pointer or compares two pointers, so a non-nil pointer is
  the record it points to.
\<close>

datatype error =
    NilInterface
  | MessageErrorPtr "MessageError option"
  | ErrorCodeVal ErrorCode
  | OtherError string

text \<open>Selecting a field through a nil pointer is a run-time panic.\<close>

datatype panic = NilDereference

subsection \<open>ErrorCode.Is\<close>

definition ErrorCode_Is :: "ErrorCode \<Rightarrow> error \<Rightarrow> panic + bool" where
  "ErrorCode_Is e target =
     (case target of
        MessageErrorPtr p \<Rightarrow>
          (case p of
             None \<Rightarrow> Inl NilDereference
           | Some t \<Rightarrow> Inr (e = ErrorCode t))
      | ErrorCodeVal c \<Rightarrow> Inr (e = c)
      | _ \<Rightarrow> Inr False)"

subsection \<open>The methods and constructors of MessageError\<close>

text \<open>The receiver is a \<^verbatim>\<open>*MessageError\<close> and may be nil as well.\<close>

definition MessageError_Error :: "MessageError option \<Rightarrow> panic + string" where
  "MessageError_Error e =
     (case e of
        None \<Rightarrow> Inl NilDereference
      | Some m \<Rightarrow>
          (if Func m \<noteq> [] then Inr (Sprintf_v_colon_v (Func m) (Description m))
           else Inr (Description m)))"

text \<open>\<^verbatim>\<open>messageError\<close> leaves the field \<^verbatim>\<open>ErrorCode\<close> out of the literal: it is the zero value.\<close>

definition messageError :: "string \<Rightarrow> string \<Rightarrow> MessageError option" where
  "messageError f desc = Some \<lparr>Func = f, ErrorCode = 0, Description = desc\<rparr>"

definition messageErrorWithCode :: "string \<Rightarrow> ErrorCode \<Rightarrow> string \<Rightarrow> MessageError option" where
  "messageErrorWithCode funcName c desc =
     Some \<lparr>Func = funcName, ErrorCode = c, Description = desc\<rparr>"

text \<open>
  In \<^verbatim>\<open>MessageError.Is\<close> the receiver is read only in the two recognised cases; with any
  other target the method returns false without touching it.
\<close>

definition MessageError_Is :: "MessageError option \<Rightarrow> error \<Rightarrow> panic + bool" where
  "MessageError_Is e target =
     (case target of
        MessageErrorPtr p \<Rightarrow>
          (case e of
             None \<Rightarrow> Inl NilDereference
           | Some m \<Rightarrow>
               (case p of
                  None \<Rightarrow> Inl NilDereference
                | Some t \<Rightarrow> Inr (ErrorCode m = ErrorCode t)))
      | ErrorCodeVal c \<Rightarrow>
          (case e of
             None \<Rightarrow> Inl NilDereference
           | Some m \<Rightarrow> Inr (c = ErrorCode m))
      | _ \<Rightarrow> Inr False)"

text \<open>\<^verbatim>\<open>Unwrap\<close> converts the code field to the interface type: an \<^verbatim>\<open>ErrorCode\<close> value.\<close>

definition MessageError_Unwrap :: "MessageError option \<Rightarrow> panic + error" where
  "MessageError_Unwrap e =
     (case e of
        None \<Rightarrow> Inl NilDereference
      | Some m \<Rightarrow> Inr (ErrorCodeVal (ErrorCode m)))"

section \<open>Properties\<close>

subsection \<open>Supporting facts\<close>

lemma digit_val_digit_char: "k < 10 \<Longrightarrow> digit_val (digit_char k) = k"
proof -
  assume "k < 10"
  then have "k \<in> {0, 1, 2, 3, 4, 5, 6, 7, 8, 9}"
    by auto
  then show ?thesis
    by (auto simp add: digit_val_def digit_char_def)
qed

text \<open>The printer writes the decimal numeral of its argument: reading it back gives the number.\<close>

lemma nat_of_digits_string_of_nat: "nat_of_digits (string_of_nat n) = n"
proof (induction n rule: string_of_nat.induct)
  case (1 n)
  show ?case
  proof (cases "n < 10")
    case True
    then show ?thesis
      by (subst string_of_nat.simps) (simp add: nat_of_digits_def digit_val_digit_char)
  next
    case False
    with 1 have "nat_of_digits (string_of_nat (n div 10)) = n div 10"
      by simp
    with False show ?thesis
      by (subst string_of_nat.simps) (simp add: nat_of_digits_def digit_val_digit_char)
  qed
qed

lemma string_of_nat_nonempty: "string_of_nat n \<noteq> []"
  by (subst string_of_nat.simps) simp

lemma FormatInt_nonempty: "FormatInt i \<noteq> []"
  by (simp add: FormatInt_def string_of_nat_nonempty)

lemmas code_defs =
  ErrVarBytesTooLong_def ErrMsgInvalidForPVer_def ErrInvalidMsg_def
  ErrMalformedStrictString_def ErrTooManyManyMixPairReqs_def
  ErrMixPairReqScriptClassTooLong_def ErrTooManyMixPairReqUTXOs_def ErrTooManyPrevMixMsgs_def

text \<open>The eight declared categories have eight different ordinals.\<close>

lemma declared_codes_distinct:
  "distinct [ErrVarBytesTooLong, ErrMsgInvalidForPVer, ErrInvalidMsg, ErrMalformedStrictString,
     ErrTooManyManyMixPairReqs, ErrMixPairReqScriptClassTooLong, ErrTooManyMixPairReqUTXOs,
     ErrTooManyPrevMixMsgs]"
  by (simp add: code_defs)

lemma errorCodeStrings_unregistered:
  "e \<notin> {ErrTooManyManyMixPairReqs, ErrMixPairReqScriptClassTooLong,
          ErrTooManyMixPairReqUTXOs, ErrTooManyPrevMixMsgs} \<Longrightarrow> errorCodeStrings e = None"
  by (simp add: errorCodeStrings_def)

lemma String_registered:
  "ErrorCode_String ErrTooManyManyMixPairReqs = ''ErrTooManyManyMixPairReqs''"
  "ErrorCode_String ErrMixPairReqScriptClassTooLong = ''ErrMixPairReqScriptClassTooLong''"
  "ErrorCode_String ErrTooManyMixPairReqUTXOs = ''ErrTooManyMixPairReqUTXOs''"
  "ErrorCode_String ErrTooManyPrevMixMsgs = ''ErrTooManyPrevMixMsgs''"
  by (simp_all add: ErrorCode_String_def map_index_def errorCodeStrings_def code_defs)

lemma String_unregistered:
  assumes "e \<notin> {ErrTooManyManyMixPairReqs, ErrMixPairReqScriptClassTooLong,
          ErrTooManyMixPairReqUTXOs, ErrTooManyPrevMixMsgs}"
  shows "ErrorCode_String e = ''Unknown ErrorCode ('' @ FormatInt (sint e) @ '')''"
  using errorCodeStrings_unregistered [OF assms]
  by (simp add: ErrorCode_String_def map_index_def Sprintf_Unknown_ErrorCode_def)

subsection \<open>Categorical matching\<close>


text \<open>
  Claim C1. Categorical matching is reflexive across representations: a MessageError built
  by \<open>messageErrorWithCode f c d\<close> matches the bare code \<open>c\<close>, and matches the
  MessageError built by \<open>messageErrorWithCode f' c d'\<close> whatever \<open>f'\<close> and \<open>d'\<close> are.
\<close>

theorem is_reflexive_across_representations:
  "MessageError_Is (messageErrorWithCode f c d) (ErrorCodeVal c) = Inr True \<and>
   MessageError_Is (messageErrorWithCode f c d)
     (MessageErrorPtr (messageErrorWithCode f' c d')) = Inr True"
  by (simp add: MessageError_Is_def messageErrorWithCode_def)

text \<open>
  Claim C2. Categorical matching is category-exact: when \<open>A \<noteq> B\<close>, a MessageError carrying
  \<open>A\<close> matches neither the bare code \<open>B\<close> nor a MessageError carrying \<open>B\<close>, and the bare
  code \<open>A\<close> matches neither of the two, whatever the function names and descriptions are.
\<close>

theorem is_category_exact:
  "A \<noteq> B \<Longrightarrow>
     MessageError_Is (messageErrorWithCode f A d) (ErrorCodeVal B) = Inr False \<and>
     MessageError_Is (messageErrorWithCode f A d)
       (MessageErrorPtr (messageErrorWithCode f' B d')) = Inr False \<and>
     ErrorCode_Is A (ErrorCodeVal B) = Inr False \<and>
     ErrorCode_Is A (MessageErrorPtr (messageErrorWithCode f' B d')) = Inr False"
  by (auto simp add: MessageError_Is_def ErrorCode_Is_def messageErrorWithCode_def)

text \<open>An instance, with the distinct categories at ordinals 1 and 2.\<close>

theorem is_category_exact_witness:
  "ErrMsgInvalidForPVer \<noteq> ErrInvalidMsg \<and>
   MessageError_Is (messageErrorWithCode ''f'' ErrMsgInvalidForPVer ''d'')
     (ErrorCodeVal ErrInvalidMsg) = Inr False \<and>
   MessageError_Is (messageErrorWithCode ''f'' ErrMsgInvalidForPVer ''d'')
     (MessageErrorPtr (messageErrorWithCode ''g'' ErrInvalidMsg ''e'')) = Inr False \<and>
   ErrorCode_Is ErrMsgInvalidForPVer (ErrorCodeVal ErrInvalidMsg) = Inr False \<and>
   ErrorCode_Is ErrMsgInvalidForPVer
     (MessageErrorPtr (messageErrorWithCode ''g'' ErrInvalidMsg ''e'')) = Inr False"
proof -
  have ne: "ErrMsgInvalidForPVer \<noteq> ErrInvalidMsg"
    by (simp add: code_defs)
  show ?thesis
    using ne is_category_exact [OF ne, of "''f''" "''d''" "''g''" "''e''"] by simp
qed

subsection \<open>Rendering\<close>

text \<open>
  Claim C3. Rendering an ErrorCode always gives a non-empty string: each of the four
  categories of the naming table renders as its registered name, and every other code
  renders as \<open>Unknown ErrorCode (n)\<close> with \<open>n\<close> the decimal numeral of its ordinal.
\<close>

theorem string_registered_or_fallback:
  "ErrorCode_String ErrTooManyManyMixPairReqs = ''ErrTooManyManyMixPairReqs'' \<and>
   ErrorCode_String ErrMixPairReqScriptClassTooLong = ''ErrMixPairReqScriptClassTooLong'' \<and>
   ErrorCode_String ErrTooManyMixPairReqUTXOs = ''ErrTooManyMixPairReqUTXOs'' \<and>
   ErrorCode_String ErrTooManyPrevMixMsgs = ''ErrTooManyPrevMixMsgs'' \<and>
   (e \<notin> {ErrTooManyManyMixPairReqs, ErrMixPairReqScriptClassTooLong,
          ErrTooManyMixPairReqUTXOs, ErrTooManyPrevMixMsgs} \<longrightarrow>
      ErrorCode_String e = ''Unknown ErrorCode ('' @ FormatInt (sint e) @ '')'') \<and>
   ErrorCode_String e \<noteq> []"
proof -
  have ne: "ErrorCode_String e \<noteq> []"
  proof (cases "e \<in> {ErrTooManyManyMixPairReqs, ErrMixPairReqScriptClassTooLong,
          ErrTooManyMixPairReqUTXOs, ErrTooManyPrevMixMsgs}")
    case True
    then show ?thesis
      using String_registered by auto
  next
    case False
    then show ?thesis
      using String_unregistered by simp
  qed
  from String_registered String_unregistered ne show ?thesis
    by blast
qed

text \<open>
  Instances: the four declared categories without a table entry (ordinals 0 to 3), and a
  negative code.
\<close>

theorem string_registered_or_fallback_witness:
  "ErrVarBytesTooLong \<notin> {ErrTooManyManyMixPairReqs, ErrMixPairReqScriptClassTooLong,
          ErrTooManyMixPairReqUTXOs, ErrTooManyPrevMixMsgs} \<and>
   ErrorCode_String ErrVarBytesTooLong = ''Unknown ErrorCode (0)'' \<and>
   ErrorCode_String ErrMsgInvalidForPVer = ''Unknown ErrorCode (1)'' \<and>
   ErrorCode_String ErrInvalidMsg = ''Unknown ErrorCode (2)'' \<and>
   ErrorCode_String ErrMalformedStrictString = ''Unknown ErrorCode (3)'' \<and>
   ErrorCode_String (- 12) = ''Unknown ErrorCode (-12)''"
  using string_registered_or_fallback [of ErrVarBytesTooLong]
    string_registered_or_fallback [of ErrMsgInvalidForPVer]
    string_registered_or_fallback [of ErrInvalidMsg]
    string_registered_or_fallback [of ErrMalformedStrictString]
    string_registered_or_fallback [of "- 12"]
  by (simp add: code_defs FormatInt_def digit_char_def)

text \<open>
  Claim C4. Rendering a MessageError always succeeds and depends only on its function name
  and description: with a non-empty function name \<open>f\<close> the text is \<open>f\<close>, a colon, a
  space, and the description; with the empty function name it is the description alone.
\<close>

theorem error_renders_func_and_description:
  "(f \<noteq> [] \<longrightarrow> MessageError_Error (messageErrorWithCode f c d) = Inr (f @ '': '' @ d)) \<and>
   MessageError_Error (messageErrorWithCode [] c d) = Inr d"
  by (simp add: MessageError_Error_def messageErrorWithCode_def Sprintf_v_colon_v_def)

text \<open>The two renderings on the function name \<open>decodeFoo\<close> and on the empty one.\<close>

theorem error_renders_func_and_description_witness:
  "''decodeFoo'' \<noteq> [] \<and>
   MessageError_Error (messageErrorWithCode ''decodeFoo'' ErrTooManyManyMixPairReqs ''exceeds max'')
     = Inr ''decodeFoo: exceeds max'' \<and>
   MessageError_Error (messageErrorWithCode [] ErrTooManyManyMixPairReqs ''bad thing'')
     = Inr ''bad thing''"
  using error_renders_func_and_description
    [of "''decodeFoo''" ErrTooManyManyMixPairReqs "''exceeds max''"]
    error_renders_func_and_description
    [of "''decodeFoo''" ErrTooManyManyMixPairReqs "''bad thing''"]
  by simp

text \<open>
  Claim C8. The rendered text of a MessageError never reveals its category: two errors
  built with the same function name and description and any two codes render alike.
\<close>

theorem error_text_independent_of_code:
  "MessageError_Error (messageErrorWithCode f c1 d) =
   MessageError_Error (messageErrorWithCode f c2 d)"
  by (simp add: MessageError_Error_def messageErrorWithCode_def)

subsection \<open>Unwrapping and the default category\<close>

text \<open>
  Claim C5. Unwrap gives back the category an error was built with, as a present value and
  never the nil interface; an error built without a category unwraps to the zero code.
\<close>

theorem unwrap_round_trip:
  "MessageError_Unwrap (messageErrorWithCode f c d) = Inr (ErrorCodeVal c) \<and>
   MessageError_Unwrap (messageErrorWithCode f c d) \<noteq> Inr NilInterface \<and>
   MessageError_Unwrap (messageError f d) = Inr (ErrorCodeVal 0) \<and>
   MessageError_Unwrap (messageError f d) \<noteq> Inr NilInterface"
  by (simp add: MessageError_Unwrap_def messageErrorWithCode_def messageError_def)

text \<open>
  Claim C6. The constructor without a category leaves the code at the zero value, which is
  the category ErrVarBytesTooLong; no target and no receiver of either match operation, nor
  Unwrap, tells \<open>messageError f d\<close> from \<open>messageErrorWithCode f' ErrVarBytesTooLong d'\<close>.
\<close>

theorem uncategorized_is_VarBytesTooLong:
  "map_option ErrorCode (messageError f d) = Some 0 \<and>
   ErrVarBytesTooLong = 0 \<and>
   messageError f d = messageErrorWithCode f ErrVarBytesTooLong d \<and>
   MessageError_Is (messageError f d) t =
     MessageError_Is (messageErrorWithCode f' ErrVarBytesTooLong d') t \<and>
   MessageError_Is r (MessageErrorPtr (messageError f d)) =
     MessageError_Is r (MessageErrorPtr (messageErrorWithCode f' ErrVarBytesTooLong d')) \<and>
   ErrorCode_Is c (MessageErrorPtr (messageError f d)) =
     ErrorCode_Is c (MessageErrorPtr (messageErrorWithCode f' ErrVarBytesTooLong d')) \<and>
   MessageError_Unwrap (messageError f d) =
     MessageError_Unwrap (messageErrorWithCode f' ErrVarBytesTooLong d')"
  by (simp add: MessageError_Is_def ErrorCode_Is_def MessageError_Unwrap_def
      messageErrorWithCode_def messageError_def ErrVarBytesTooLong_def
      split: error.split option.split)

subsection \<open>Targets of other shapes, symmetry, nil pointers\<close>

text \<open>
  Claim C7. A target that is neither a MessageError pointer nor a bare ErrorCode gives no
  match, never a failure, from the match operation of every code and of every MessageError
  receiver.
\<close>

theorem unrelated_target_never_matches:
  "(\<forall>p. t \<noteq> MessageErrorPtr p) \<Longrightarrow> (\<forall>c. t \<noteq> ErrorCodeVal c) \<Longrightarrow>
     ErrorCode_Is e t = Inr False \<and> MessageError_Is r t = Inr False"
  by (cases t) (simp_all add: ErrorCode_Is_def MessageError_Is_def)

text \<open>An instance: a target of another error type, against code 2 and an error carrying it.\<close>

theorem unrelated_target_never_matches_witness:
  "(\<forall>p. OtherError ''EOF'' \<noteq> MessageErrorPtr p) \<and> (\<forall>c. OtherError ''EOF'' \<noteq> ErrorCodeVal c) \<and>
   ErrorCode_Is ErrInvalidMsg (OtherError ''EOF'') = Inr False \<and>
   MessageError_Is (messageErrorWithCode ''f'' ErrInvalidMsg ''d'') (OtherError ''EOF'') = Inr False"
proof -
  have h1: "\<forall>p. OtherError ''EOF'' \<noteq> MessageErrorPtr p"
    by simp
  have h2: "\<forall>c. OtherError ''EOF'' \<noteq> ErrorCodeVal c"
    by simp
  from unrelated_target_never_matches [OF h1 h2] h1 h2 show ?thesis
    by blast
qed

text \<open>
  Claim C9. Matching is symmetric across the two recognised shapes: for a code \<open>c\<close> and a
  non-nil MessageError \<open>m\<close>, \<open>c.Is(m)\<close> equals \<open>m.Is(c)\<close>, and for two non-nil
  MessageErrors \<open>m1.Is(m2)\<close> equals \<open>m2.Is(m1)\<close>; each is the equality of the codes.
\<close>

theorem is_symmetric:
  "ErrorCode_Is c (MessageErrorPtr (Some m)) = MessageError_Is (Some m) (ErrorCodeVal c) \<and>
   ErrorCode_Is c (MessageErrorPtr (Some m)) = Inr (c = ErrorCode m) \<and>
   MessageError_Is (Some m1) (MessageErrorPtr (Some m2)) =
     MessageError_Is (Some m2) (MessageErrorPtr (Some m1)) \<and>
   MessageError_Is (Some m1) (MessageErrorPtr (Some m2)) = Inr (ErrorCode m1 = ErrorCode m2)"
  by (auto simp add: ErrorCode_Is_def MessageError_Is_def)

text \<open>
  A nil receiver of \<^verbatim>\<open>MessageError.Is\<close> with a non-nil MessageError target: the method
  reads the receiver's code field and faults, although the target is not nil.
\<close>

theorem is_nil_receiver_counterexample:
  "MessageErrorPtr (messageErrorWithCode ''f'' ErrInvalidMsg ''d'') \<noteq> MessageErrorPtr None \<and>
   MessageError_Is None (MessageErrorPtr (messageErrorWithCode ''f'' ErrInvalidMsg ''d''))
     = Inl NilDereference"
  by (simp add: MessageError_Is_def messageErrorWithCode_def)

text \<open>
  Claim C10, amended. Neither match operation guards the read of the target's code field
  against nil. When the target is not a nil MessageError pointer, \<^verbatim>\<open>ErrorCode.Is\<close>
  returns, and \<^verbatim>\<open>MessageError.Is\<close> returns when its receiver is not nil either; with a
  nil MessageError pointer as target both fault with a nil dereference and give no result.
\<close>

theorem is_total_unless_nil_pointer:
  "(t \<noteq> MessageErrorPtr None \<longrightarrow>
      (\<exists>b. ErrorCode_Is c t = Inr b) \<and> (\<exists>b. MessageError_Is (Some m) t = Inr b)) \<and>
   ErrorCode_Is c (MessageErrorPtr None) = Inl NilDereference \<and>
   MessageError_Is e (MessageErrorPtr None) = Inl NilDereference"
  by (cases t) (auto simp add: ErrorCode_Is_def MessageError_Is_def split: option.split)

text \<open>An instance with a non-nil MessageError target carrying code 2.\<close>

theorem is_total_unless_nil_pointer_witness:
  "MessageErrorPtr (messageErrorWithCode ''f'' ErrInvalidMsg ''d'') \<noteq> MessageErrorPtr None \<and>
   ErrorCode_Is ErrInvalidMsg (MessageErrorPtr (messageErrorWithCode ''f'' ErrInvalidMsg ''d''))
     = Inr True \<and>
   MessageError_Is (messageErrorWithCode ''g'' ErrVarBytesTooLong ''e'')
     (MessageErrorPtr (messageErrorWithCode ''f'' ErrInvalidMsg ''d'')) = Inr False \<and>
   ErrorCode_Is ErrInvalidMsg (MessageErrorPtr None) = Inl NilDereference \<and>
   MessageError_Is (messageErrorWithCode ''g'' ErrVarBytesTooLong ''e'') (MessageErrorPtr None)
     = Inl NilDereference"
  using is_total_unless_nil_pointer
    [of "MessageErrorPtr (messageErrorWithCode ''f'' ErrInvalidMsg ''d'')" ErrInvalidMsg
        "\<lparr>Func = ''g'', ErrorCode = ErrVarBytesTooLong, Description = ''e''\<rparr>"
        "messageErrorWithCode ''g'' ErrVarBytesTooLong ''e''"]
  by (simp add: ErrorCode_Is_def MessageError_Is_def messageErrorWithCode_def code_defs)

end
